theory Spec2Isabelle
  imports Complex_Main "HOL-Library.Sublist"
begin

section \<open>Python values\<close>

text \<open>
  The detection engine works on dictionaries whose values come from parsed JSON logs.
  A field value is \<^verbatim>\<open>None\<close>, a \<^verbatim>\<open>bool\<close>, an (unbounded) \<^verbatim>\<open>int\<close>,
  a \<^verbatim>\<open>float\<close> or a \<^verbatim>\<open>str\<close>. A float is a real number or one of the three special
  values; rounding and the finite range of binary64 are not represented, so the arithmetic
  below is exact arithmetic on the reals.
\<close>

datatype pyfloat = Fin real | PInf | NInf | NaN

datatype pyval = PNone | PBool bool | PInt int | PFloat pyfloat | PStr string

text \<open>The exceptions that the code can raise or catch, all of them subclasses of
  \<^verbatim>\<open>Exception\<close>; \<open>OtherError\<close> stands for any other exception of a library.\<close>

datatype exn = TypeError | ValueError | OverflowError | ZeroDivisionError | IndexError
  | OtherError string

text \<open>A dictionary with string keys, in insertion order; \<^verbatim>\<open>d.get(k)\<close> and \<^verbatim>\<open>d.get(k, default)\<close>.\<close>

type_synonym row = "(string \<times> pyval) list"

definition dict_get :: "row \<Rightarrow> string \<Rightarrow> pyval" where
  "dict_get r k = (case map_of r k of None \<Rightarrow> PNone | Some v \<Rightarrow> v)"

definition dict_get_default :: "row \<Rightarrow> string \<Rightarrow> pyval \<Rightarrow> pyval" where
  "dict_get_default r k d = (case map_of r k of None \<Rightarrow> d | Some v \<Rightarrow> v)"

text \<open>Truth value of an object, and \<^verbatim>\<open>a or b\<close>, which returns \<^verbatim>\<open>a\<close> when it is truthy.\<close>

fun truthy :: "pyval \<Rightarrow> bool" where
  "truthy PNone = False"
| "truthy (PBool b) = b"
| "truthy (PInt i) = (i \<noteq> 0)"
| "truthy (PFloat x) = (x \<noteq> Fin 0)"
| "truthy (PStr s) = (s \<noteq> [])"

definition py_or :: "pyval \<Rightarrow> pyval \<Rightarrow> pyval" where
  "py_or a b = (if truthy a then a else b)"

text \<open>
  The numeric value of a bool, int or float, and \<^verbatim>\<open>a == b\<close>: numbers compare by value
  across the three numeric types (\<^verbatim>\<open>True == 1 == 1.0\<close>), a NaN equals nothing, and values
  of other types are equal when they are the same.  Dictionary keys are compared with it.
\<close>

fun num_val :: "pyval \<Rightarrow> pyfloat option" where
  "num_val (PBool b) = Some (Fin (if b then 1 else 0))"
| "num_val (PInt i) = Some (Fin (of_int i))"
| "num_val (PFloat x) = Some x"
| "num_val PNone = None"
| "num_val (PStr s) = None"

definition py_eq :: "pyval \<Rightarrow> pyval \<Rightarrow> bool" where
  "py_eq a b = (case (num_val a, num_val b) of
      (Some x, Some y) \<Rightarrow> x = y \<and> x \<noteq> NaN
    | (None, None) \<Rightarrow> a = b
    | _ \<Rightarrow> False)"

section \<open>Aggregator (main.py, lines 55 to 61; the same loop in threat\_agent.py,
  anomaly\_detector.py and run\_pipeline.py)\<close>

text \<open>
  One entry \<^verbatim>\<open>{'ip': ip, 'failed_logins': 0, 'requests': 0}\<close> per key of the dictionary
  \<^verbatim>\<open>agg\<close>. The dictionary keeps insertion order and the key of an entry is its
  \<^verbatim>\<open>'ip'\<close> value, so \<^verbatim>\<open>agg\<close> is the list of its entries.
\<close>

record agg_entry =
  ip :: pyval
  failed_logins :: int
  requests :: int

definition actor_id :: "row \<Rightarrow> pyval" where
  "actor_id r = py_or (py_or (dict_get r ''source_ip'') (dict_get r ''ip'')) (PStr ''unknown'')"

definition is_failed_login :: "row \<Rightarrow> bool" where
  "is_failed_login r = py_eq (dict_get r ''event'') (PStr ''failed_login'')"

text \<open>Position of the entry stored under a key, if there is one.\<close>

fun find_key :: "pyval \<Rightarrow> agg_entry list \<Rightarrow> nat option" where
  "find_key k [] = None"
| "find_key k (e # es) = (if py_eq (ip e) k then Some 0 else map_option Suc (find_key k es))"

text \<open>
  \<^verbatim>\<open>agg.setdefault(ip, {...})\<close> returns the entry already stored under the key, or stores
  the fresh one at the end and returns it. The entry is a reference into \<^verbatim>\<open>agg\<close>: the
  model returns its position, and the two increments update that position.
\<close>

definition setdefault :: "agg_entry list \<Rightarrow> pyval \<Rightarrow> agg_entry list \<times> nat" where
  "setdefault agg k = (case find_key k agg of
      Some i \<Rightarrow> (agg, i)
    | None \<Rightarrow> (agg @ [\<lparr>ip = k, failed_logins = 0, requests = 0\<rparr>], length agg))"

definition aggregate_event :: "agg_entry list \<Rightarrow> row \<Rightarrow> agg_entry list" where
  "aggregate_event agg r =
     (let k = actor_id r;
          (agg1, i) = setdefault agg k;
          agg2 = (if is_failed_login r
                  then agg1[i := (agg1 ! i)\<lparr>failed_logins := failed_logins (agg1 ! i) + 1\<rparr>]
                  else agg1)
      in agg2[i := (agg2 ! i)\<lparr>requests := requests (agg2 ! i) + 1\<rparr>])"

definition aggregate :: "row list \<Rightarrow> agg_entry list" where
  "aggregate events = foldl aggregate_event [] events"

text \<open>The entry as the dictionary that is handed to the rule engine and the detector.\<close>

definition entry_row :: "agg_entry \<Rightarrow> row" where
  "entry_row e = [(''ip'', ip e), (''failed_logins'', PInt (failed_logins e)),
                  (''requests'', PInt (requests e))]"





section \<open>RuleEngine (rule\_engine.py)\<close>

text \<open>
  \<^verbatim>\<open>int(v)\<close>. On a string the builtin parses an integer literal; the parser is the
  parameter \<open>parse\<close>, which returns \<open>None\<close> where \<^verbatim>\<open>int\<close> raises \<^verbatim>\<open>ValueError\<close>.
  A finite float is truncated towards zero, an infinite one raises \<^verbatim>\<open>OverflowError\<close>
  and a NaN raises \<^verbatim>\<open>ValueError\<close>.
\<close>

fun py_int :: "(string \<Rightarrow> int option) \<Rightarrow> pyval \<Rightarrow> exn + int" where
  "py_int parse PNone = Inl TypeError"
| "py_int parse (PBool b) = Inr (if b then 1 else 0)"
| "py_int parse (PInt i) = Inr i"
| "py_int parse (PFloat (Fin x)) = Inr (if 0 \<le> x then \<lfloor>x\<rfloor> else \<lceil>x\<rceil>)"
| "py_int parse (PFloat PInf) = Inl OverflowError"
| "py_int parse (PFloat NInf) = Inl OverflowError"
| "py_int parse (PFloat NaN) = Inl ValueError"
| "py_int parse (PStr s) = (case parse s of None \<Rightarrow> Inl ValueError | Some i \<Rightarrow> Inr i)"

text \<open>Lines 10 to 17: the value compared with the threshold; only \<^verbatim>\<open>TypeError\<close> and
  \<^verbatim>\<open>ValueError\<close> are caught.\<close>

definition coerce_failed_logins :: "(string \<Rightarrow> int option) \<Rightarrow> pyval \<Rightarrow> exn + int" where
  "coerce_failed_logins parse v =
     (if v = PNone \<or> py_eq v (PStr ''unknown'') then Inr 0
      else (case py_int parse v of
              Inr n \<Rightarrow> Inr n
            | Inl TypeError \<Rightarrow> Inr 0
            | Inl ValueError \<Rightarrow> Inr 0
            | Inl e \<Rightarrow> Inl e))"

definition brute_force_alert :: "pyval \<Rightarrow> int \<Rightarrow> row" where
  "brute_force_alert ipv n =
     [(''type'', PStr ''Brute Force''), (''ip'', ipv), (''failed_logins'', PInt n)]"

text \<open>The loop over \<^verbatim>\<open>df.iterrows()\<close>, with the list \<^verbatim>\<open>alerts\<close> as accumulator. Rows are
  the dictionaries of the list that \<^verbatim>\<open>ThreatAgent.analyze\<close> wraps; a missing key reads as
  \<^verbatim>\<open>None\<close>.\<close>

fun check_rules_loop :: "(string \<Rightarrow> int option) \<Rightarrow> row list \<Rightarrow> row list \<Rightarrow> exn + row list" where
  "check_rules_loop parse [] alerts = Inr alerts"
| "check_rules_loop parse (r # rs) alerts =
     (let fl = dict_get r ''failed_logins'';
          ipv = dict_get r ''ip''
      in case coerce_failed_logins parse fl of
           Inl e \<Rightarrow> Inl e
         | Inr n \<Rightarrow> check_rules_loop parse rs
                     (if n > 5 then alerts @ [brute_force_alert ipv n] else alerts))"

definition check_rules :: "(string \<Rightarrow> int option) \<Rightarrow> row list \<Rightarrow> exn + row list" where
  "check_rules parse df = check_rules_loop parse df []"

text \<open>The value that a row contributes to the comparison; an infinite float is the one
  stored value on which the conversion raises an exception that is not caught.\<close>

definition coerced_count :: "(string \<Rightarrow> int option) \<Rightarrow> row \<Rightarrow> int" where
  "coerced_count parse r =
     (case coerce_failed_logins parse (dict_get r ''failed_logins'') of
        Inr n \<Rightarrow> n | Inl e \<Rightarrow> 0)"

definition infinite_float :: "pyval \<Rightarrow> bool" where
  "infinite_float v = (v = PFloat PInf \<or> v = PFloat NInf)"

definition counters_ok :: "agg_entry \<Rightarrow> bool" where
  "counters_ok e = (0 \<le> failed_logins e \<and> failed_logins e \<le> requests e)"

section \<open>Float arithmetic\<close>

text \<open>
  Exact arithmetic on finite values, with the IEEE rules for the infinities and NaN.
  \<open>fquot\<close> is the total quotient that numpy computes; Python's \<^verbatim>\<open>/\<close> raises
  \<^verbatim>\<open>ZeroDivisionError\<close> on a zero divisor. \<open>fsquare\<close> is \<^verbatim>\<open>x ** 2\<close> and \<open>fsqrt\<close> is
  \<^verbatim>\<open>x ** 0.5\<close>, which the code applies to a variance only (never to a negative number).
\<close>

fun fadd :: "pyfloat \<Rightarrow> pyfloat \<Rightarrow> pyfloat" where
  "fadd (Fin a) (Fin b) = Fin (a + b)"
| "fadd NaN y = NaN"
| "fadd x NaN = NaN"
| "fadd PInf NInf = NaN"
| "fadd NInf PInf = NaN"
| "fadd PInf y = PInf"
| "fadd x PInf = PInf"
| "fadd NInf y = NInf"
| "fadd x NInf = NInf"

fun fneg :: "pyfloat \<Rightarrow> pyfloat" where
  "fneg (Fin a) = Fin (- a)"
| "fneg PInf = NInf"
| "fneg NInf = PInf"
| "fneg NaN = NaN"

definition fsub :: "pyfloat \<Rightarrow> pyfloat \<Rightarrow> pyfloat" where
  "fsub x y = fadd x (fneg y)"

fun fabs :: "pyfloat \<Rightarrow> pyfloat" where
  "fabs (Fin a) = Fin \<bar>a\<bar>"
| "fabs PInf = PInf"
| "fabs NInf = PInf"
| "fabs NaN = NaN"

fun fsquare :: "pyfloat \<Rightarrow> pyfloat" where
  "fsquare (Fin a) = Fin (a ^ 2)"
| "fsquare PInf = PInf"
| "fsquare NInf = PInf"
| "fsquare NaN = NaN"

fun fsqrt :: "pyfloat \<Rightarrow> pyfloat" where
  "fsqrt (Fin a) = Fin (sqrt a)"
| "fsqrt PInf = PInf"
| "fsqrt NInf = PInf"
| "fsqrt NaN = NaN"

fun fquot :: "pyfloat \<Rightarrow> pyfloat \<Rightarrow> pyfloat" where
  "fquot (Fin a) (Fin b) =
     (if b = 0 then (if a = 0 then NaN else if 0 < a then PInf else NInf) else Fin (a / b))"
| "fquot NaN y = NaN"
| "fquot x NaN = NaN"
| "fquot (Fin a) y = Fin 0"
| "fquot PInf (Fin b) = (if 0 \<le> b then PInf else NInf)"
| "fquot NInf (Fin b) = (if 0 \<le> b then NInf else PInf)"
| "fquot x y = NaN"

definition fdiv :: "pyfloat \<Rightarrow> pyfloat \<Rightarrow> exn + pyfloat" where
  "fdiv x y = (if y = Fin 0 then Inl ZeroDivisionError else Inr (fquot x y))"

text \<open>\<^verbatim>\<open>z > n_sigma\<close>; a comparison with NaN is false.\<close>

fun fgt :: "pyfloat \<Rightarrow> real \<Rightarrow> bool" where
  "fgt (Fin a) t = (t < a)"
| "fgt PInf t = True"
| "fgt NInf t = False"
| "fgt NaN t = False"

text \<open>\<^verbatim>\<open>sum(xs)\<close>: from 0, adding the items from left to right.\<close>

definition py_sum :: "pyfloat list \<Rightarrow> pyfloat" where
  "py_sum xs = foldl fadd (Fin 0) xs"

definition epsilon :: pyfloat where
  "epsilon = Fin (1 / 10 ^ 8)"

section \<open>AnomalyDetector (anomaly\_detector.py)\<close>

subsection \<open>The pure-Python heuristic (lines 105 to 135)\<close>

text \<open>\<^verbatim>\<open>list(zip(*rows))\<close> for a non-empty list of rows: the columns, as many as the
  shortest row has items.\<close>

definition zip_star :: "'a list list \<Rightarrow> 'a list list" where
  "zip_star rows =
     (case rows of
        [] \<Rightarrow> []
      | r # rs \<Rightarrow> map (\<lambda>j. map (\<lambda>q. q ! j) rows) [0..<foldl min (length r) (map length rs)])"

text \<open>
  Lines 113 to 122, for one column: \<^verbatim>\<open>None\<close> counts as 0 in the statistics, adding a
  string raises \<^verbatim>\<open>TypeError\<close>, the variance is divided by \<open>n\<close>, and a standard deviation
  equal to 0 is replaced by \<^verbatim>\<open>1e-8\<close>.
\<close>

definition col_stats :: "pyval list \<Rightarrow> exn + pyfloat \<times> pyfloat" where
  "col_stats c =
     (let vals = map (\<lambda>v. if v \<noteq> PNone then v else PInt 0) c
      in case those (map num_val vals) of
           None \<Rightarrow> Inl TypeError
         | Some xs \<Rightarrow>
             (let n = Fin (real (length xs))
              in case fdiv (py_sum xs) n of
                   Inl e \<Rightarrow> Inl e
                 | Inr mean \<Rightarrow>
                     (case fdiv (py_sum (map (\<lambda>x. fsquare (fsub x mean)) xs)) n of
                        Inl e \<Rightarrow> Inl e
                      | Inr var \<Rightarrow>
                          (let std = fsqrt var
                           in Inr (mean, if std = Fin 0 then epsilon else std)))))"

fun all_col_stats :: "pyval list list \<Rightarrow> exn + pyfloat list \<times> pyfloat list" where
  "all_col_stats [] = Inr ([], [])"
| "all_col_stats (c # cs) =
     (case col_stats c of
        Inl e \<Rightarrow> Inl e
      | Inr (mean, std) \<Rightarrow>
          (case all_col_stats cs of
             Inl e \<Rightarrow> Inl e
           | Inr (means, stds) \<Rightarrow> Inr (mean # means, std # stds)))"

text \<open>
  Lines 126 to 133, the inner loop over \<^verbatim>\<open>enumerate(r)\<close> from index \<open>i\<close>: a \<^verbatim>\<open>None\<close> is
  skipped, and the loop stops at the first feature whose z-score exceeds the threshold.
  \<^verbatim>\<open>means[i]\<close> raises \<^verbatim>\<open>IndexError\<close> for a row longer than the shortest one.
\<close>

fun row_is_anom :: "real \<Rightarrow> pyfloat list \<Rightarrow> pyfloat list \<Rightarrow> nat \<Rightarrow> pyval list \<Rightarrow> exn + bool" where
  "row_is_anom t means stds i [] = Inr False"
| "row_is_anom t means stds i (v # vs) =
     (if v = PNone then row_is_anom t means stds (Suc i) vs
      else if length means \<le> i then Inl IndexError
      else (case num_val v of
              None \<Rightarrow> Inl TypeError
            | Some x \<Rightarrow>
                (case fdiv (fsub x (means ! i)) (stds ! i) of
                   Inl e \<Rightarrow> Inl e
                 | Inr q \<Rightarrow>
                     if fgt (fabs q) t then Inr True
                     else row_is_anom t means stds (Suc i) vs)))"

fun mask_rows :: "real \<Rightarrow> pyfloat list \<Rightarrow> pyfloat list \<Rightarrow> pyval list list \<Rightarrow> exn + bool list" where
  "mask_rows t means stds [] = Inr []"
| "mask_rows t means stds (r # rs) =
     (case row_is_anom t means stds 0 r of
        Inl e \<Rightarrow> Inl e
      | Inr is_anom \<Rightarrow>
          (case mask_rows t means stds rs of
             Inl e \<Rightarrow> Inl e
           | Inr flags \<Rightarrow> Inr (is_anom # flags)))"

definition py_heuristic_mask :: "real \<Rightarrow> pyval list list \<Rightarrow> exn + bool list" where
  "py_heuristic_mask t features =
     (if features = [] then Inr []
      else (case all_col_stats (zip_star features) of
              Inl e \<Rightarrow> Inl e
            | Inr (means, stds) \<Rightarrow> mask_rows t means stds features))"

subsection \<open>The numpy branch of the heuristic (lines 94 to 103)\<close>

text \<open>
  The array is numeric when every item is a bool, an int or a float; the statistics of
  \<^verbatim>\<open>nanmean\<close> and \<^verbatim>\<open>nanstd\<close> leave the NaN items of a column out, and the mask is
  \<^verbatim>\<open>(z > n_sigma).any(axis=1)\<close>. On an array that holds \<^verbatim>\<open>None\<close> or a string numpy's
  reductions raise \<^verbatim>\<open>TypeError\<close>, and rows of different lengths do not form an array.
\<close>

definition nan_stats :: "pyfloat list \<Rightarrow> pyfloat \<times> pyfloat" where
  "nan_stats c =
     (let xs = filter (\<lambda>x. x \<noteq> NaN) c;
          n = Fin (real (length xs));
          mean = fquot (py_sum xs) n;
          var = fquot (py_sum (map (\<lambda>x. fsquare (fabs (fsub x mean))) xs)) n;
          std = fsqrt var
      in (mean, if std = Fin 0 then epsilon else std))"

definition np_heuristic_mask :: "real \<Rightarrow> pyval list list \<Rightarrow> exn + bool list" where
  "np_heuristic_mask t features =
     (case those (map (\<lambda>r. those (map num_val r)) features) of
        None \<Rightarrow> Inl TypeError
      | Some arr \<Rightarrow>
          if \<not> list_all (\<lambda>r. length r = length (hd arr)) arr then Inl ValueError
          else (let stats = map nan_stats (zip_star arr)
                in Inr (map (\<lambda>r. list_ex (\<lambda>(x, mean, std). fgt (fabs (fquot (fsub x mean) std)) t)
                                     (zip r stats)) arr)))"

subsection \<open>The detector\<close>

text \<open>
  The runtime: the two module flags, and the library's outlier model. A model is the
  function from a feature matrix to the outcome of \<^verbatim>\<open>fit\<close> followed by \<^verbatim>\<open>predict\<close>: the
  labels (-1 for an outlier), or the exception that one of the two calls raised.
\<close>

type_synonym iforest = "pyval list list \<Rightarrow> exn + int list"

record runtime =
  has_numpy :: bool
  has_sklearn :: bool
  IsolationForest :: "real \<Rightarrow> exn + iforest"

record detector =
  contamination :: real
  n_sigma :: real
  model :: "iforest option"

text \<open>\<^verbatim>\<open>AnomalyDetector.__init__\<close>, lines 25 to 30.\<close>

definition AnomalyDetector :: "runtime \<Rightarrow> real \<Rightarrow> real \<Rightarrow> exn + detector" where
  "AnomalyDetector E c s =
     (if has_sklearn E
      then (case IsolationForest E c of
              Inl e \<Rightarrow> Inl e
            | Inr m \<Rightarrow> Inr \<lparr>contamination = c, n_sigma = s, model = Some m\<rparr>)
      else Inr \<lparr>contamination = c, n_sigma = s, model = None\<rparr>)"

text \<open>Lines 46 to 50: the feature matrix of a list of dictionaries; a missing key reads
  as 0.\<close>

definition extract_features :: "row list \<Rightarrow> pyval list list" where
  "extract_features rows =
     map (\<lambda>r. [dict_get_default r ''failed_logins'' (PInt 0),
               dict_get_default r ''requests'' (PInt 0)]) rows"

definition heuristic_mask :: "runtime \<Rightarrow> detector \<Rightarrow> pyval list list \<Rightarrow> exn + bool list" where
  "heuristic_mask E d features =
     (if has_numpy E then np_heuristic_mask (n_sigma d) features
      else py_heuristic_mask (n_sigma d) features)"

text \<open>Lines 52 to 63: the model when there is one, the heuristic when the model raises or
  is absent.\<close>

definition strategy_mask :: "runtime \<Rightarrow> detector \<Rightarrow> pyval list list \<Rightarrow> exn + bool list" where
  "strategy_mask E d features =
     (case model d of
        Some m \<Rightarrow>
          if has_sklearn E
          then (case m features of
                  Inr preds \<Rightarrow> Inr (map (\<lambda>p. p = - 1) preds)
                | Inl e \<Rightarrow> heuristic_mask E d features)
          else heuristic_mask E d features
      | None \<Rightarrow> heuristic_mask E d features)"

text \<open>Lines 81 to 83: the loop over \<^verbatim>\<open>enumerate(mask)\<close> from index \<open>idx\<close>.\<close>

fun collect_anomalies :: "row list \<Rightarrow> nat \<Rightarrow> bool list \<Rightarrow> row list" where
  "collect_anomalies rows idx [] = []"
| "collect_anomalies rows idx (is_anom # flags) =
     (if is_anom \<and> idx < length rows
      then rows ! idx # collect_anomalies rows (Suc idx) flags
      else collect_anomalies rows (Suc idx) flags)"

text \<open>
  \<^verbatim>\<open>AnomalyDetector.detect\<close> on a list of dictionaries, which is what the pipeline passes:
  indexing the list with the two column names raises, so the features are built from the
  rows (lines 46 to 50), and the feature matrix has no \<^verbatim>\<open>iloc\<close>, so the records are taken
  from the list (lines 75 to 83). A pandas data frame as input is not modelled.
\<close>

definition detect :: "runtime \<Rightarrow> detector \<Rightarrow> row list \<Rightarrow> exn + row list" where
  "detect E d df =
     (let features = extract_features df
      in case strategy_mask E d features of
           Inl e \<Rightarrow> Inl e
         | Inr flags \<Rightarrow> Inr (collect_anomalies df 0 flags))"


section \<open>The heuristic as the specification words it\<close>

text \<open>
  Population mean and population standard deviation of a feature (the sum of squared
  deviations divided by \<open>n\<close>), the standard deviation with \<^verbatim>\<open>1e-8\<close> substituted for 0, and
  the z-score \<open>|value - mean| / std\<close>.
\<close>

definition pop_mean :: "real list \<Rightarrow> real" where
  "pop_mean xs = sum_list xs / real (length xs)"

definition pop_std :: "real list \<Rightarrow> real" where
  "pop_std xs = sqrt (sum_list (map (\<lambda>x. (x - pop_mean xs) ^ 2) xs) / real (length xs))"

definition guarded_std :: "real list \<Rightarrow> real" where
  "guarded_std xs = (if pop_std xs = 0 then 1 / 10 ^ 8 else pop_std xs)"

definition z_score :: "real list \<Rightarrow> real \<Rightarrow> real" where
  "z_score col x = \<bar>x - pop_mean col\<bar> / guarded_std col"

text \<open>A feature value that is a finite number, and its value; \<open>fin_val\<close> is 0 on
  \<^verbatim>\<open>None\<close>.\<close>

definition finite_num :: "pyval \<Rightarrow> bool" where
  "finite_num v = (case num_val v of Some (Fin x) \<Rightarrow> True | _ \<Rightarrow> False)"

definition fin_val :: "pyval \<Rightarrow> real" where
  "fin_val v = (case num_val v of Some (Fin x) \<Rightarrow> x | _ \<Rightarrow> 0)"

text \<open>Feature \<open>j\<close> over all rows of the batch, and the test that feature \<open>j\<close> of a row
  strictly exceeds the threshold.\<close>

definition feature_col :: "nat \<Rightarrow> pyval list list \<Rightarrow> real list" where
  "feature_col j fs = map (\<lambda>r. fin_val (r ! j)) fs"

definition exceeds :: "real \<Rightarrow> pyval list list \<Rightarrow> nat \<Rightarrow> pyval list \<Rightarrow> bool" where
  "exceeds t fs j r = (t < z_score (feature_col j fs) (fin_val (r ! j)))"

definition hit :: "real \<Rightarrow> pyval list list \<Rightarrow> nat \<Rightarrow> pyval list \<Rightarrow> bool" where
  "hit t fs j r = (r ! j \<noteq> PNone \<and> exceeds t fs j r)"

section \<open>Properties of the rule engine\<close>

lemma py_int_error_cases:
  "py_int parse v = Inl e \<Longrightarrow>
     e = TypeError \<or> e = ValueError \<or> (e = OverflowError \<and> infinite_float v)"
  by (induction parse v rule: py_int.induct) (auto simp: infinite_float_def split: option.splits)

lemma coerce_finite:
  assumes "\<not> infinite_float v"
  shows "\<exists>n. coerce_failed_logins parse v = Inr n"
proof (cases "py_int parse v")
  case (Inl e)
  with assms py_int_error_cases[OF Inl] have "e = TypeError \<or> e = ValueError" by blast
  with Inl show ?thesis by (auto simp: coerce_failed_logins_def)
next
  case (Inr n)
  then show ?thesis by (auto simp: coerce_failed_logins_def)
qed

lemma coerce_infinite:
  "infinite_float v \<Longrightarrow> coerce_failed_logins parse v = Inl OverflowError"
  by (auto simp: coerce_failed_logins_def infinite_float_def py_eq_def)

text \<open>A value that is missing (read as \<^verbatim>\<open>None\<close>), \<^verbatim>\<open>None\<close>, the string \<^verbatim>\<open>"unknown"\<close>,
  a string that \<^verbatim>\<open>int\<close> does not parse, or a NaN counts as 0.\<close>

lemma coerce_zero_cases:
  "coerce_failed_logins parse PNone = Inr 0"
  "coerce_failed_logins parse (PStr ''unknown'') = Inr 0"
  "parse s = None \<Longrightarrow> coerce_failed_logins parse (PStr s) = Inr 0"
  "coerce_failed_logins parse (PFloat NaN) = Inr 0"
  by (auto simp: coerce_failed_logins_def py_eq_def)

lemma check_rules_loop_filter:
  assumes "\<forall>r\<in>set rows. \<not> infinite_float (dict_get r ''failed_logins'')"
  shows "check_rules_loop parse rows alerts =
         Inr (alerts @ map (\<lambda>r. brute_force_alert (dict_get r ''ip'') (coerced_count parse r))
                          (filter (\<lambda>r. 5 < coerced_count parse r) rows))"
  using assms
proof (induction rows arbitrary: alerts)
  case Nil
  then show ?case by simp
next
  case (Cons r rows)
  from Cons.prems have "\<not> infinite_float (dict_get r ''failed_logins'')" by simp
  then obtain n where n: "coerce_failed_logins parse (dict_get r ''failed_logins'') = Inr n"
    using coerce_finite by blast
  then have c: "coerced_count parse r = n" by (simp add: coerced_count_def)
  from Cons.prems have rest: "\<forall>r\<in>set rows. \<not> infinite_float (dict_get r ''failed_logins'')"
    by simp
  show ?case using n c Cons.IH[OF rest] by (simp add: Let_def)
qed

text \<open>The records that the aggregator produces: no conversion fails, and the alerts
  are those of the entries with more than 5 failed logins.\<close>

lemma check_rules_on_aggregated_records:
  "check_rules parse (map entry_row es) =
     Inr (map (\<lambda>e. brute_force_alert (ip e) (failed_logins e))
              (filter (\<lambda>e. 5 < failed_logins e) es))"
proof -
  have fl: "\<And>e. dict_get (entry_row e) ''failed_logins'' = PInt (failed_logins e)"
    by (simp add: dict_get_def entry_row_def)
  have ipv: "\<And>e. dict_get (entry_row e) ''ip'' = ip e"
    by (simp add: dict_get_def entry_row_def)
  have cc: "\<And>e. coerced_count parse (entry_row e) = failed_logins e"
    by (simp add: coerced_count_def fl coerce_failed_logins_def py_eq_def)
  have "\<forall>r\<in>set (map entry_row es). \<not> infinite_float (dict_get r ''failed_logins'')"
    by (auto simp: fl infinite_float_def)
  from check_rules_loop_filter[OF this, of parse "[]"] show ?thesis
    by (simp add: check_rules_def filter_map comp_def cc ipv)
qed

text \<open>
  C3. For every sequence of records whose \<^verbatim>\<open>failed_logins\<close> is not an infinite float,
  \<open>check_rules\<close> returns, in input order, exactly one alert
  \<^verbatim>\<open>{type: "Brute Force", ip: <ip of the record>, failed_logins: <coerced int>}\<close> for each
  record whose coerced \<^verbatim>\<open>failed_logins\<close> is strictly greater than 5, and no alert for a
  record whose coerced value is at most 5.
\<close>

theorem check_rules_brute_force_alerts:
  assumes "\<forall>r\<in>set rows. \<not> infinite_float (dict_get r ''failed_logins'')"
  shows "check_rules parse rows =
         Inr (map (\<lambda>r. [(''type'', PStr ''Brute Force''), (''ip'', dict_get r ''ip''),
                         (''failed_logins'', PInt (coerced_count parse r))])
                  (filter (\<lambda>r. 5 < coerced_count parse r) rows))"
  using check_rules_loop_filter[OF assms, of parse "[]"]
  by (simp add: check_rules_def brute_force_alert_def)

theorem check_rules_brute_force_alerts_witness:
  "list_all (\<lambda>r. \<not> infinite_float (dict_get r ''failed_logins''))
     [[(''ip'', PStr ''10.0.0.1''), (''failed_logins'', PInt 6), (''requests'', PInt 8)],
      [(''ip'', PStr ''10.0.0.2''), (''failed_logins'', PInt 5), (''requests'', PInt 5)],
      [(''ip'', PStr ''10.0.0.3''), (''failed_logins'', PStr ''unknown''), (''requests'', PInt 7)],
      [(''ip'', PStr ''10.0.0.4''), (''requests'', PInt 9)],
      [(''ip'', PStr ''10.0.0.5''), (''failed_logins'', PFloat (Fin (79 / 10))), (''requests'', PInt 20)]] \<and>
   check_rules (\<lambda>s. None)
     [[(''ip'', PStr ''10.0.0.1''), (''failed_logins'', PInt 6), (''requests'', PInt 8)],
      [(''ip'', PStr ''10.0.0.2''), (''failed_logins'', PInt 5), (''requests'', PInt 5)],
      [(''ip'', PStr ''10.0.0.3''), (''failed_logins'', PStr ''unknown''), (''requests'', PInt 7)],
      [(''ip'', PStr ''10.0.0.4''), (''requests'', PInt 9)],
      [(''ip'', PStr ''10.0.0.5''), (''failed_logins'', PFloat (Fin (79 / 10))), (''requests'', PInt 20)]]
   = Inr [[(''type'', PStr ''Brute Force''), (''ip'', PStr ''10.0.0.1''), (''failed_logins'', PInt 6)],
          [(''type'', PStr ''Brute Force''), (''ip'', PStr ''10.0.0.5''), (''failed_logins'', PInt 7)]]"
  using check_rules_brute_force_alerts[of
     "[[(''ip'', PStr ''10.0.0.1''), (''failed_logins'', PInt 6), (''requests'', PInt 8)],
       [(''ip'', PStr ''10.0.0.2''), (''failed_logins'', PInt 5), (''requests'', PInt 5)],
       [(''ip'', PStr ''10.0.0.3''), (''failed_logins'', PStr ''unknown''), (''requests'', PInt 7)],
       [(''ip'', PStr ''10.0.0.4''), (''requests'', PInt 9)],
       [(''ip'', PStr ''10.0.0.5''), (''failed_logins'', PFloat (Fin (79 / 10))), (''requests'', PInt 20)]]"
     "\<lambda>s. None"]
  by (simp add: infinite_float_def dict_get_def coerced_count_def coerce_failed_logins_def
                py_eq_def)

text \<open>
  C6. The record \<^verbatim>\<open>{"ip": "10.0.0.9", "failed_logins": float("inf")}\<close>: \<^verbatim>\<open>int\<close> raises
  \<^verbatim>\<open>OverflowError\<close>, which the handler for \<^verbatim>\<open>(TypeError, ValueError)\<close> does not catch, so
  \<open>check_rules\<close> raises on this malformed field value.
\<close>

theorem check_rules_raises_on_infinite_count:
  "check_rules parse [[(''ip'', PStr ''10.0.0.9''), (''failed_logins'', PFloat PInf)]]
   = Inl OverflowError"
  by (simp add: check_rules_def dict_get_def coerce_failed_logins_def py_eq_def)

section \<open>Properties of the aggregator\<close>

lemma list_all_update: "list_all P xs \<Longrightarrow> P y \<Longrightarrow> list_all P (xs[i := y])"
  by (induction xs arbitrary: i) (auto split: nat.splits)

lemma find_key_bound: "find_key k agg = Some i \<Longrightarrow> i < length agg"
  by (induction agg arbitrary: i) (auto split: if_splits)

lemma setdefault_ok:
  assumes "list_all counters_ok agg" "setdefault agg k = (agg1, i)"
  shows "list_all counters_ok agg1 \<and> i < length agg1"
  using assms
  by (auto simp: setdefault_def counters_ok_def find_key_bound split: option.splits)

lemma aggregate_event_ok:
  assumes "list_all counters_ok agg"
  shows "list_all counters_ok (aggregate_event agg r)"
proof -
  obtain agg1 i where sd: "setdefault agg (actor_id r) = (agg1, i)" by fastforce
  from setdefault_ok[OF assms sd] have a1: "list_all counters_ok agg1" and i: "i < length agg1"
    by auto
  from a1 i have e: "counters_ok (agg1 ! i)" by (simp add: list_all_length)
  show ?thesis
    using sd a1 i e
    by (auto simp: aggregate_event_def Let_def counters_ok_def intro!: list_all_update)
qed

lemma foldl_aggregate_ok:
  "list_all counters_ok agg \<Longrightarrow> list_all counters_ok (foldl aggregate_event agg events)"
  by (induction events arbitrary: agg) (auto simp: aggregate_event_ok)

text \<open>
  C5. For every sequence of raw events, every record that the aggregator produces has
  integer counters with \<open>0 \<le> failed_logins \<le> requests\<close>.
\<close>

theorem aggregate_requests_ge_failed_logins:
  "\<forall>e\<in>set (aggregate events). 0 \<le> failed_logins e \<and> failed_logins e \<le> requests e"
  using foldl_aggregate_ok[of "[]" events]
  by (simp add: aggregate_def list_all_iff counters_ok_def)

theorem aggregate_requests_ge_failed_logins_witness:
  "aggregate [[(''ip'', PStr ''1.1.1.1''), (''event'', PStr ''failed_login'')],
              [(''ip'', PStr ''1.1.1.1''), (''event'', PStr ''login'')]]
     = [\<lparr>ip = PStr ''1.1.1.1'', failed_logins = 1, requests = 2\<rparr>]
   \<and> list_all (\<lambda>e. 0 \<le> failed_logins e \<and> failed_logins e \<le> requests e)
        (aggregate [[(''ip'', PStr ''1.1.1.1''), (''event'', PStr ''failed_login'')],
                    [(''ip'', PStr ''1.1.1.1''), (''event'', PStr ''login'')]])"
proof -
  have "aggregate [[(''ip'', PStr ''1.1.1.1''), (''event'', PStr ''failed_login'')],
                   [(''ip'', PStr ''1.1.1.1''), (''event'', PStr ''login'')]]
        = [\<lparr>ip = PStr ''1.1.1.1'', failed_logins = 1, requests = 2\<rparr>]"
    by (simp add: aggregate_def aggregate_event_def setdefault_def actor_id_def
                  is_failed_login_def dict_get_def py_or_def py_eq_def)
  then show ?thesis
    using aggregate_requests_ge_failed_logins[of
      "[[(''ip'', PStr ''1.1.1.1''), (''event'', PStr ''failed_login'')],
        [(''ip'', PStr ''1.1.1.1''), (''event'', PStr ''login'')]]"]
    by (simp add: list_all_iff)
qed

lemma num_val_NaN: "num_val a = Some NaN \<longleftrightarrow> a = PFloat NaN"
  by (cases a) auto
















section \<open>Properties of the heuristic\<close>

lemma py_sum_Fin_aux: "foldl fadd (Fin a) (map Fin rs) = Fin (a + sum_list rs)"
  by (induction rs arbitrary: a) (auto simp: algebra_simps)

lemma py_sum_Fin: "py_sum (map Fin rs) = Fin (sum_list rs)"
  by (simp add: py_sum_def py_sum_Fin_aux)

lemma fsub_Fin: "fsub (Fin a) (Fin b) = Fin (a - b)"
  by (simp add: fsub_def)

lemma guarded_std_nonzero: "guarded_std rs \<noteq> 0"
  by (simp add: guarded_std_def)

lemma num_val_zero_none:
  "v = PNone \<or> finite_num v \<Longrightarrow> num_val (if v \<noteq> PNone then v else PInt 0) = Some (Fin (fin_val v))"
  by (cases v) (auto simp: finite_num_def fin_val_def split: pyfloat.splits)

lemma col_nums:
  assumes "list_all (\<lambda>v. v = PNone \<or> finite_num v) c"
  shows "those (map num_val (map (\<lambda>v. if v \<noteq> PNone then v else PInt 0) c))
         = Some (map Fin (map fin_val c))"
  using assms
proof (induction c)
  case Nil
  then show ?case by simp
next
  case (Cons v c)
  then have "num_val (if v \<noteq> PNone then v else PInt 0) = Some (Fin (fin_val v))"
    using num_val_zero_none[of v] by simp
  with Cons show ?case by simp
qed

lemma col_stats_core:
  assumes th: "those (map num_val (map (\<lambda>v. if v \<noteq> PNone then v else PInt 0) c)) = Some (map Fin rs)"
    and ne: "rs \<noteq> []"
  shows "col_stats c = Inr (Fin (pop_mean rs), Fin (guarded_std rs))"
proof -
  have mean: "fdiv (py_sum (map Fin rs)) (Fin (real (length (map Fin rs)))) = Inr (Fin (pop_mean rs))"
    using ne by (simp add: fdiv_def py_sum_Fin pop_mean_def)
  have sq: "map (\<lambda>x. fsquare (fsub x (Fin (pop_mean rs)))) (map Fin rs)
           = map Fin (map (\<lambda>x. (x - pop_mean rs) ^ 2) rs)"
    by (simp add: fsub_Fin)
  have var: "fdiv (py_sum (map (\<lambda>x. fsquare (fsub x (Fin (pop_mean rs)))) (map Fin rs)))
                  (Fin (real (length (map Fin rs))))
             = Inr (Fin (sum_list (map (\<lambda>x. (x - pop_mean rs) ^ 2) rs) / real (length rs)))"
    using ne unfolding sq py_sum_Fin by (simp add: fdiv_def)
  show ?thesis
    unfolding col_stats_def Let_def th option.case mean sum.case var
    by (simp add: pop_std_def guarded_std_def epsilon_def)
qed

lemma col_stats_finite:
  assumes "list_all (\<lambda>v. v = PNone \<or> finite_num v) c" "c \<noteq> []"
  shows "col_stats c = Inr (Fin (pop_mean (map fin_val c)), Fin (guarded_std (map fin_val c)))"
  using col_stats_core[OF col_nums[OF assms(1)]] assms(2) by simp

lemma pop_std_nonneg: "0 \<le> pop_std rs"
  unfolding pop_std_def by (intro real_sqrt_ge_zero divide_nonneg_nonneg sum_list_nonneg) auto

lemma guarded_std_pos: "0 < guarded_std rs"
  using pop_std_nonneg[of rs] by (auto simp: guarded_std_def)

lemma foldl_min_same: "list_all (\<lambda>r. length r = n) rs \<Longrightarrow> foldl min n (map length rs) = n"
  by (induction rs) auto

lemma zip_star_two:
  assumes "fs \<noteq> []" "list_all (\<lambda>r. length r = 2) fs"
  shows "zip_star fs = [map (\<lambda>r. r ! 0) fs, map (\<lambda>r. r ! Suc 0) fs]"
proof -
  obtain r rs where fs: "fs = r # rs" using assms(1) by (cases fs) auto
  with assms(2) have "length r = 2" "list_all (\<lambda>r. length r = 2) rs" by auto
  then have "foldl min (length r) (map length rs) = 2" using foldl_min_same[of 2 rs] by simp
  moreover have "[0..<2] = [0, Suc 0]" by (simp add: upt_rec numeral_2_eq_2)
  ultimately show ?thesis by (simp add: zip_star_def fs)
qed

lemma num_val_finite: "finite_num v \<Longrightarrow> num_val v = Some (Fin (fin_val v))"
  by (auto simp: finite_num_def fin_val_def split: option.splits pyfloat.splits)

lemma finite_not_None: "finite_num v \<Longrightarrow> v \<noteq> PNone"
  by (auto simp: finite_num_def)

lemma row_is_anom_two:
  assumes "a = PNone \<or> finite_num a" "b = PNone \<or> finite_num b" "0 < s0" "0 < s1"
  shows "row_is_anom t [Fin m0, Fin m1] [Fin s0, Fin s1] 0 [a, b]
         = Inr ((a \<noteq> PNone \<and> t < \<bar>fin_val a - m0\<bar> / s0) \<or> (b \<noteq> PNone \<and> t < \<bar>fin_val b - m1\<bar> / s1))"
  using assms
  by (auto simp: num_val_finite fdiv_def fsub_Fin finite_not_None abs_of_pos)

lemma mask_rows_two:
  assumes "list_all (\<lambda>r. length r = 2 \<and> list_all (\<lambda>v. v = PNone \<or> finite_num v) r) rs"
    "0 < s0" "0 < s1"
  shows "mask_rows t [Fin m0, Fin m1] [Fin s0, Fin s1] rs
         = Inr (map (\<lambda>r. (r ! 0 \<noteq> PNone \<and> t < \<bar>fin_val (r ! 0) - m0\<bar> / s0)
                        \<or> (r ! Suc 0 \<noteq> PNone \<and> t < \<bar>fin_val (r ! Suc 0) - m1\<bar> / s1)) rs)"
  using assms(1)
proof (induction rs)
  case Nil
  then show ?case by simp
next
  case (Cons r rs)
  then obtain a b where r: "r = [a, b]"
    by (cases r; cases "tl r") auto
  with Cons.prems have ab: "a = PNone \<or> finite_num a" "b = PNone \<or> finite_num b" by auto
  from Cons have IH: "mask_rows t [Fin m0, Fin m1] [Fin s0, Fin s1] rs
         = Inr (map (\<lambda>r. (r ! 0 \<noteq> PNone \<and> t < \<bar>fin_val (r ! 0) - m0\<bar> / s0)
                        \<or> (r ! Suc 0 \<noteq> PNone \<and> t < \<bar>fin_val (r ! Suc 0) - m1\<bar> / s1)) rs)" by simp
  show ?case
    unfolding r mask_rows.simps row_is_anom_two[OF ab assms(2,3)] IH by simp
qed

lemma py_heuristic_mask_two:
  assumes "fs \<noteq> []"
    "list_all (\<lambda>r. length r = 2 \<and> list_all (\<lambda>v. v = PNone \<or> finite_num v) r) fs"
  shows "py_heuristic_mask t fs = Inr (map (\<lambda>r. hit t fs 0 r \<or> hit t fs (Suc 0) r) fs)"
proof -
  have len: "list_all (\<lambda>r. length r = 2) fs" using assms(2) by (simp add: list_all_iff)
  have c0: "list_all (\<lambda>v. v = PNone \<or> finite_num v) (map (\<lambda>r. r ! 0) fs)"
    using assms(2) by (auto simp: list_all_iff)
  have c1: "list_all (\<lambda>v. v = PNone \<or> finite_num v) (map (\<lambda>r. r ! Suc 0) fs)"
    using assms(2) by (auto simp: list_all_iff)
  have ne: "map (\<lambda>r. r ! 0) fs \<noteq> []" "map (\<lambda>r. r ! Suc 0) fs \<noteq> []" using assms(1) by auto
  have stats: "all_col_stats (zip_star fs)
     = Inr ([Fin (pop_mean (feature_col 0 fs)), Fin (pop_mean (feature_col (Suc 0) fs))],
            [Fin (guarded_std (feature_col 0 fs)), Fin (guarded_std (feature_col (Suc 0) fs))])"
    unfolding zip_star_two[OF assms(1) len]
    by (simp add: col_stats_finite[OF c0 ne(1)] col_stats_finite[OF c1 ne(2)] feature_col_def comp_def)
  show ?thesis
    unfolding py_heuristic_mask_def stats
    using assms(1) mask_rows_two[OF assms(2) guarded_std_pos guarded_std_pos]
    by (simp add: hit_def exceeds_def z_score_def)
qed








text \<open>
  The batch of nine records with \<^verbatim>\<open>failed_logins = 1\<close> and one with \<^verbatim>\<open>failed_logins = 100\<close>
  lies on the threshold: the population mean is 10.9, the population standard deviation
  is 29.7, and the z-score of the tenth record is 89.1 / 29.7 = 3. In exact arithmetic it
  does not strictly exceed \<^verbatim>\<open>n_sigma = 3.0\<close>; what the binary64 computation returns there
  depends on the rounding of each operation, which this development does not represent.
\<close>

lemma sqrt_boundary: "sqrt (88209 / 100) = 297 / 10"
  by (rule real_sqrt_unique) (simp_all add: power2_eq_square)

lemma boundary_batch_exact_arithmetic:
  "py_heuristic_mask 3
     [[PInt 1, PInt 10], [PInt 1, PInt 10], [PInt 1, PInt 10], [PInt 1, PInt 10], [PInt 1, PInt 10],
      [PInt 1, PInt 10], [PInt 1, PInt 10], [PInt 1, PInt 10], [PInt 1, PInt 10], [PInt 100, PInt 10]]
   = Inr [False, False, False, False, False, False, False, False, False, False]
   \<and> z_score [1, 1, 1, 1, 1, 1, 1, 1, 1, 100] 100 = 3"
proof -
  have z: "z_score [1, 1, 1, 1, 1, 1, 1, 1, 1, 100] 100 = 3"
    by (simp add: z_score_def pop_mean_def pop_std_def guarded_std_def sqrt_boundary power2_eq_square)
  have z1: "z_score [1, 1, 1, 1, 1, 1, 1, 1, 1, 100] 1 = 1 / 3"
    by (simp add: z_score_def pop_mean_def pop_std_def guarded_std_def sqrt_boundary power2_eq_square)
  have z0: "z_score [10, 10, 10, 10, 10, 10, 10, 10, 10, 10] 10 = 0"
    by (simp add: z_score_def pop_mean_def)
  show ?thesis
    using py_heuristic_mask_two[of "[[PInt 1, PInt 10], [PInt 1, PInt 10], [PInt 1, PInt 10], [PInt 1, PInt 10], [PInt 1, PInt 10],
      [PInt 1, PInt 10], [PInt 1, PInt 10], [PInt 1, PInt 10], [PInt 1, PInt 10], [PInt 100, PInt 10]]" 3]
    by (simp add: hit_def exceeds_def finite_num_def feature_col_def fin_val_def z z1 z0)
qed

section \<open>Properties of the detector\<close>

text \<open>The features of the records that the aggregator produces are two finite numbers.\<close>

lemma aggregated_features_finite:
  "extract_features (map entry_row es) = map (\<lambda>e. [PInt (failed_logins e), PInt (requests e)]) es"
  "\<forall>r\<in>set (extract_features (map entry_row es)). length r = 2 \<and> list_all finite_num r"
  by (auto simp: extract_features_def entry_row_def dict_get_default_def finite_num_def)

lemma collect_anomalies_zip:
  "collect_anomalies rows idx flags = map fst (filter snd (zip (drop idx rows) flags))"
proof (induction flags arbitrary: idx)
  case Nil
  then show ?case by simp
next
  case (Cons b flags)
  show ?case
  proof (cases "idx < length rows")
    case True
    then have "drop idx rows = rows ! idx # drop (Suc idx) rows" by (simp add: Cons_nth_drop_Suc)
    then show ?thesis using Cons True by simp
  next
    case False
    then show ?thesis using Cons by simp
  qed
qed

lemma subseq_zip_filter: "subseq (map fst (filter P (zip xs bs))) xs"
proof (induction xs arbitrary: bs)
  case Nil
  then show ?case by simp
next
  case (Cons x xs)
  show ?case
  proof (cases bs)
    case Nil
    then show ?thesis by simp
  next
    case (Cons b bs')
    with Cons.IH[of bs'] show ?thesis by auto
  qed
qed

text \<open>
  C7. Whenever the strategy returns a mask for the feature matrix of the input records,
  \<open>detect\<close> returns exactly the original input records (the dictionaries, not the
  feature rows) at the positions where the mask is true, in input order: a subsequence of
  the input. The feature matrix has one row per input record, and row \<open>i\<close> holds the two
  features of record \<open>i\<close>.
\<close>

theorem detect_returns_masked_records:
  assumes "strategy_mask E d (extract_features df) = Inr flags"
  shows "detect E d df = Inr (map fst (filter snd (zip df flags)))
       \<and> subseq (map fst (filter snd (zip df flags))) df
       \<and> length (extract_features df) = length df
       \<and> (\<forall>i<length df. extract_features df ! i =
            [dict_get_default (df ! i) ''failed_logins'' (PInt 0),
             dict_get_default (df ! i) ''requests'' (PInt 0)])"
  using assms
  by (simp add: detect_def collect_anomalies_zip subseq_zip_filter extract_features_def)

theorem detect_returns_masked_records_witness:
  "detect \<lparr>has_numpy = True, has_sklearn = True, IsolationForest = (\<lambda>c. Inr (\<lambda>fs. Inr [1, - 1, 1]))\<rparr>
     \<lparr>contamination = 1 / 10, n_sigma = 3, model = Some (\<lambda>fs. Inr [1, - 1, 1])\<rparr>
     [[(''ip'', PStr ''a''), (''failed_logins'', PInt 1), (''requests'', PInt 10)],
      [(''ip'', PStr ''b''), (''failed_logins'', PInt 90), (''requests'', PInt 95)],
      [(''ip'', PStr ''c''), (''failed_logins'', PInt 2), (''requests'', PInt 12)]]
   = Inr [[(''ip'', PStr ''b''), (''failed_logins'', PInt 90), (''requests'', PInt 95)]]"
  using detect_returns_masked_records[of "\<lparr>has_numpy = True, has_sklearn = True, IsolationForest = (\<lambda>c. Inr (\<lambda>fs. Inr [1, - 1, 1]))\<rparr>"
     "\<lparr>contamination = 1 / 10, n_sigma = 3, model = Some (\<lambda>fs. Inr [1, - 1, 1])\<rparr>"
     "[[(''ip'', PStr ''a''), (''failed_logins'', PInt 1), (''requests'', PInt 10)],
      [(''ip'', PStr ''b''), (''failed_logins'', PInt 90), (''requests'', PInt 95)],
      [(''ip'', PStr ''c''), (''failed_logins'', PInt 2), (''requests'', PInt 12)]]"
     "[False, True, False]"]
  by (simp add: strategy_mask_def)












text \<open>The fallback is not guarded itself: on a feature that is a string the heuristic
  raises \<^verbatim>\<open>TypeError\<close> in either branch, and \<open>detect\<close> raises it.\<close>

lemma detect_raises_on_string_feature:
  "detect \<lparr>has_numpy = np, has_sklearn = True, IsolationForest = (\<lambda>c. Inr (\<lambda>fs. Inl ValueError))\<rparr>
     \<lparr>contamination = 1 / 10, n_sigma = 3, model = Some (\<lambda>fs. Inl ValueError)\<rparr>
     [[(''ip'', PStr ''10.0.0.1''), (''failed_logins'', PStr ''unknown''), (''requests'', PInt 10)]]
   = Inl TypeError"
proof -
  have "np_heuristic_mask 3 [[PStr ''unknown'', PInt 10]] = Inl TypeError"
    by (simp add: np_heuristic_mask_def)
  moreover have "py_heuristic_mask 3 [[PStr ''unknown'', PInt 10]] = Inl TypeError"
    by (simp add: py_heuristic_mask_def zip_star_def col_stats_def upt_rec numeral_2_eq_2)
  ultimately show ?thesis
    by (simp add: detect_def strategy_mask_def heuristic_mask_def extract_features_def
          dict_get_default_def Let_def)
qed

text \<open>
  C9 as amended. The constructor validates nothing. Without the outlier-model library it
  always succeeds; whenever it succeeds, \<open>contamination\<close> and \<open>n_sigma\<close> are stored
  unchanged (never clamped); and it fails only with an exception raised by the library's
  \<^verbatim>\<open>IsolationForest\<close> constructor, to which \<open>n_sigma\<close> is not passed.
\<close>

theorem detector_construction_validates_nothing:
  "(\<not> has_sklearn E \<longrightarrow> AnomalyDetector E c s = Inr \<lparr>contamination = c, n_sigma = s, model = None\<rparr>)
   \<and> (\<forall>d. AnomalyDetector E c s = Inr d \<longrightarrow> contamination d = c \<and> n_sigma d = s)
   \<and> (\<forall>e. AnomalyDetector E c s = Inl e \<longrightarrow> has_sklearn E \<and> IsolationForest E c = Inl e)"
  by (auto simp: AnomalyDetector_def split: sum.splits if_splits)

theorem detector_construction_validates_nothing_witness:
  "AnomalyDetector \<lparr>has_numpy = False, has_sklearn = False, IsolationForest = (\<lambda>c. Inl (OtherError ''absent''))\<rparr> 2 (- 3)
   = Inr \<lparr>contamination = 2, n_sigma = - 3, model = None\<rparr>"
  using detector_construction_validates_nothing[of "\<lparr>has_numpy = False, has_sklearn = False, IsolationForest = (\<lambda>c. Inl (OtherError ''absent''))\<rparr>" 2 "- 3"]
  by simp

text \<open>
  C9 as stated fails: with a contamination of 5 and an \<open>n_sigma\<close> of -1 the
  construction succeeds and stores both values.
\<close>

theorem detector_accepts_invalid_configuration:
  "AnomalyDetector \<lparr>has_numpy = False, has_sklearn = False, IsolationForest = (\<lambda>c. Inl (OtherError ''no sklearn''))\<rparr> 5 (- 1)
   = Inr \<lparr>contamination = 5, n_sigma = - 1, model = None\<rparr>"
  by (simp add: AnomalyDetector_def)






end
